theory Spec2Isabelle
  imports Complex_Main "HOL-Library.List_Lexorder"
begin

text \<open>
  The data core of \<open>app.py\<close>, the inventory dashboard: the normalisation of column
  labels (\<open>_normalize_column\<close>, here \<open>normalize_column\<close>), the construction of the
  canonical frame with its flags, reference depreciation and priority
  (\<open>load_inventory\<close>, \<open>classify_priority\<close>), the indicators
  (\<open>compute_insights\<close>) and the priority filter (\<open>apply_priority_filter\<close>). Charts and
  page layout are not modelled.
\<close>

section \<open>Python strings\<close>

text \<open>
  A Python \<open>str\<close> is a sequence of Unicode code points; it is modelled as a list of
  natural numbers, one per code point. ASCII literals of the source are written with
  \<open>lit\<close>, so that \<open>lit ''mac''\<close> is the three code points of \<open>"mac"\<close>.
\<close>

type_synonym pystr = "nat list"

definition lit :: "string \<Rightarrow> pystr" where
  "lit s = map of_char s"

text \<open>
  \<open>str.isspace\<close> of one code point: the white space that \<open>str.strip()\<close> and
  \<open>str.split()\<close> without arguments remove (tab to carriage return, the four
  separators U+001C to U+001F, space, NEL, no-break space and the Unicode spaces).
\<close>

definition isspace :: "nat \<Rightarrow> bool" where
  "isspace c \<longleftrightarrow>
     (9 \<le> c \<and> c \<le> 13) \<or> (28 \<le> c \<and> c \<le> 32) \<or> c = 133 \<or> c = 160 \<or> c = 5760 \<or>
     (8192 \<le> c \<and> c \<le> 8202) \<or> c = 8232 \<or> c = 8233 \<or> c = 8239 \<or> c = 8287 \<or>
     c = 12288"

definition strip :: "pystr \<Rightarrow> pystr" where
  "strip s = rev (dropWhile isspace (rev (dropWhile isspace s)))"

text \<open>
  \<open>str.lower()\<close>: the capitals \<open>A\<close> to \<open>Z\<close> and the capitals of Latin-1 (U+00C0 to
  U+00DE without the multiplication sign) move to their small letters, 32 code points up.
  Python also lower-cases capitals beyond U+00FF, which are left in place here. The source
  uses \<open>lower\<close> on text that is ASCII already (\<open>normalize_column\<close>) and to compare the
  result with ASCII words (\<open>classify_priority\<close>); no code point beyond U+00FF lower-cases
  to ASCII characters only, except U+212A KELVIN SIGN to \<open>k\<close>, a letter that none of
  those words has, so both uses see what Python computes.
\<close>

definition lower_cp :: "nat \<Rightarrow> nat" where
  "lower_cp c = (if (65 \<le> c \<and> c \<le> 90) \<or> (192 \<le> c \<and> c \<le> 222 \<and> c \<noteq> 215) then c + 32 else c)"

definition lower :: "pystr \<Rightarrow> pystr" where
  "lower s = map lower_cp s"

text \<open>\<open>s.replace(a, b)\<close> for one-character strings \<open>a\<close> and \<open>b\<close>.\<close>

definition replace :: "nat \<Rightarrow> nat \<Rightarrow> pystr \<Rightarrow> pystr" where
  "replace a b s = map (\<lambda>c. if c = a then b else c) s"

text \<open>\<open>sep.join(words)\<close>.\<close>

fun join :: "pystr \<Rightarrow> pystr list \<Rightarrow> pystr" where
  "join sep [] = []"
| "join sep [w] = w"
| "join sep (w # v # ws) = w @ sep @ join sep (v # ws)"

text \<open>
  \<open>s.split()\<close> without arguments: the maximal runs of characters that are not white
  space, in order; leading and trailing white space gives no empty word.
\<close>

function split :: "pystr \<Rightarrow> pystr list" where
  "split [] = []"
| "split (c # cs) =
     (if isspace c then split cs
      else (c # takeWhile (\<lambda>d. \<not> isspace d) cs) # split (dropWhile (\<lambda>d. \<not> isspace d) cs))"
  by pat_completeness auto
termination
  by (relation "measure length") (auto simp: less_Suc_eq_le length_dropWhile_le)

text \<open>
  \<open>re.search(pat, s, re.IGNORECASE)\<close> for a pattern of small ASCII letters, which is
  what \<open>Series.str.contains(pat, case=False)\<close> evaluates on each text cell. A pattern
  letter matches itself and its capital; besides, \<open>re\<close> lets \<open>i\<close> match U+0130 and
  U+0131, \<open>s\<close> match U+017F and \<open>k\<close> match U+212A.
\<close>

definition ignorecase_eq :: "nat \<Rightarrow> nat \<Rightarrow> bool" where
  "ignorecase_eq p c \<longleftrightarrow>
     c = p \<or> (65 \<le> c \<and> c \<le> 90 \<and> c + 32 = p) \<or>
     (p = 105 \<and> (c = 304 \<or> c = 305)) \<or> (p = 115 \<and> c = 383) \<or> (p = 107 \<and> c = 8490)"

fun match_here :: "pystr \<Rightarrow> pystr \<Rightarrow> bool" where
  "match_here [] s = True"
| "match_here (p # ps) [] = False"
| "match_here (p # ps) (c # cs) = (ignorecase_eq p c \<and> match_here ps cs)"

fun search_ignorecase :: "pystr \<Rightarrow> pystr \<Rightarrow> bool" where
  "search_ignorecase pat [] = match_here pat []"
| "search_ignorecase pat (c # cs) = (match_here pat (c # cs) \<or> search_ignorecase pat cs)"

section \<open>Column labels\<close>

text \<open>
  \<open>unicodedata.normalize("NFKD", column).encode("ascii", "ignore").decode("ascii")\<close>.
  NFKD replaces a code point by its compatibility decomposition and then reorders
  combining marks. ASCII code points have no decomposition and are not combining marks, and
  \<open>encode("ascii", "ignore")\<close> drops every code point from 128 on, so the result is, in
  order, each ASCII character of the input and the ASCII characters of the decomposition
  of each other code point. Unicode's decomposition table is the parameter
  \<open>decomposition\<close>.
\<close>

definition nfkd_ascii :: "(nat \<Rightarrow> pystr) \<Rightarrow> pystr \<Rightarrow> pystr" where
  "nfkd_ascii decomposition s =
     concat (map (\<lambda>c. if c < 128 then [c] else filter (\<lambda>d. d < 128) (decomposition c)) s)"

text \<open>The character class \<open>[0-9a-z ]\<close> of the regular expression.\<close>

definition in_class :: "nat \<Rightarrow> bool" where
  "in_class c \<longleftrightarrow> (48 \<le> c \<and> c \<le> 57) \<or> (97 \<le> c \<and> c \<le> 122) \<or> c = 32"

text \<open>
  \<open>re.sub(r"[^0-9a-z ]+", " ", base)\<close>: every maximal run of characters outside the
  class becomes one space.
\<close>

function re_sub :: "pystr \<Rightarrow> pystr" where
  "re_sub [] = []"
| "re_sub (c # cs) =
     (if in_class c then c # re_sub cs
      else 32 # re_sub (dropWhile (\<lambda>d. \<not> in_class d) cs))"
  by pat_completeness auto
termination
  by (relation "measure length") (auto simp: less_Suc_eq_le length_dropWhile_le)

definition normalize_column :: "(nat \<Rightarrow> pystr) \<Rightarrow> pystr \<Rightarrow> pystr" where
  "normalize_column decomposition column =
     (let base = lower (strip (replace 10 32 (nfkd_ascii decomposition column)));
          base = re_sub base
      in join [95] (split base))"

text \<open>
  The shape of what \<open>normalize_column\<close> returns: words of digits and small ASCII
  letters (\<open>word_char\<close>), none of them empty.
\<close>

definition word_char :: "nat \<Rightarrow> bool" where
  "word_char c \<longleftrightarrow> (48 \<le> c \<and> c \<le> 57) \<or> (97 \<le> c \<and> c \<le> 122)"

definition label_words :: "pystr list \<Rightarrow> bool" where
  "label_words ws \<longleftrightarrow> (\<forall>w\<in>set ws. w \<noteq> [] \<and> (\<forall>c\<in>set w. word_char c))"

section \<open>Cells, rows and frames\<close>

text \<open>
  A \<open>float64\<close> cell is a number or NaN (the missing value of pandas); numbers are
  modelled as reals, without the rounding and the infinities of IEEE doubles. A cell of a
  text column is a string or missing; text columns that hold numbers or other objects are
  not modelled. A frame is the list of its rows, in index order.
\<close>

datatype pyfloat = Fin real | NaN

datatype cell = Str pystr | NA

datatype error = AttributeError | ValueError

text \<open>\<open>a <= b\<close> on floats: a comparison with NaN is false.\<close>

fun float_le :: "pyfloat \<Rightarrow> pyfloat \<Rightarrow> bool" where
  "float_le (Fin a) (Fin b) = (a \<le> b)"
| "float_le _ _ = False"

text \<open>Multiplication and division of a float by a number; NaN stays NaN.\<close>

fun fmul :: "pyfloat \<Rightarrow> real \<Rightarrow> pyfloat" where
  "fmul (Fin a) b = Fin (a * b)"
| "fmul NaN b = NaN"

text \<open>
  Every divisor in \<open>compute_insights\<close> is made non-zero by the source before it divides
  (\<open>len(df) or 1\<close>, \<open>centros.sum() or 1\<close>), so the model never divides by zero.
\<close>

fun fdiv :: "pyfloat \<Rightarrow> real \<Rightarrow> pyfloat" where
  "fdiv (Fin a) b = Fin (a / b)"
| "fdiv NaN b = NaN"

text \<open>
  \<open>Series.sum()\<close> skips NaN (\<open>skipna=True\<close>), so the sum of a float column is always a
  number, 0 for the empty column.
\<close>

definition sum_skipna :: "pyfloat list \<Rightarrow> real" where
  "sum_skipna xs = sum_list (map (\<lambda>x. case x of Fin v \<Rightarrow> v | NaN \<Rightarrow> 0) xs)"

definition series_sum :: "pyfloat list \<Rightarrow> pyfloat" where
  "series_sum xs = Fin (sum_skipna xs)"

text \<open>
  \<open>Series.mean()\<close> of a boolean column: the fraction of \<open>True\<close>, and NaN for the empty
  column (pandas divides the sum by a count of zero and answers NaN).
\<close>

definition mask_mean :: "bool list \<Rightarrow> pyfloat" where
  "mask_mean bs =
     (if bs = [] then NaN else Fin (real (length (filter (\<lambda>b. b) bs)) / real (length bs)))"

text \<open>\<open>Series.unique()\<close>: the distinct values in order of first appearance.\<close>

definition unique :: "'a list \<Rightarrow> 'a list" where
  "unique xs = rev (remdups (rev xs))"

text \<open>\<open>Series.str.strip()\<close> on a text column: a missing cell stays missing.\<close>

definition str_strip :: "cell \<Rightarrow> cell" where
  "str_strip c = (case c of Str s \<Rightarrow> Str (strip s) | NA \<Rightarrow> NA)"

text \<open>\<open>Series.fillna(value).astype(str)\<close> on a text column.\<close>

definition fillna_str :: "pystr \<Rightarrow> cell \<Rightarrow> pystr" where
  "fillna_str v c = (case c of Str s \<Rightarrow> s | NA \<Rightarrow> v)"

text \<open>\<open>Series.str.contains(pat, case=False, na=False)\<close>: false on a missing cell.\<close>

definition str_contains :: "pystr \<Rightarrow> cell \<Rightarrow> bool" where
  "str_contains pat c = (case c of Str s \<Rightarrow> search_ignorecase pat s | NA \<Rightarrow> False)"

section \<open>Loading the inventory\<close>

text \<open>
  The source defines \<open>load_inventory\<close> three times; the one embedded here is the full
  one (lines 52 to 98), which builds the canonical frame. Its input is the spreadsheet
  after \<open>pd.read_excel\<close> and the two renames of the column labels, with the columns the
  function reads: the text columns as \<open>cell\<close>s, the two numeric columns with a numeric
  dtype, on which \<open>astype(float)\<close> changes nothing. Columns that the function never
  reads are left out.
\<close>

record sheet_row =
  col_nome :: cell
  col_status :: cell
  col_grupo :: cell
  col_usuario :: cell
  col_numero_inventario :: cell
  col_tipo_item :: cell
  col_categoria :: cell
  col_valor_unitario :: pyfloat
  col_depreciacao_unitaria :: pyfloat

record flagged_row =
  nome :: cell
  status :: cell
  grupo :: cell
  usuario :: pystr
  numero_inventario :: pystr
  tipo_item :: cell
  categoria :: cell
  valor_unitario :: pyfloat
  depreciacao_unitaria :: pyfloat
  is_mac :: bool
  is_license :: bool
  is_low_cost :: bool
  tem_usuario :: bool
  tem_inventario :: bool
  rastreados :: bool
  dep_referencia :: pyfloat

record inv_row = flagged_row +
  prioridade :: pystr

definition MAC_REFERENCE_DEPRECIATION :: real where
  "MAC_REFERENCE_DEPRECIATION = 2145"

definition LICENSE_REFERENCE_DEPRECIATION :: real where
  "LICENSE_REFERENCE_DEPRECIATION = 1200"

definition LOW_COST_THRESHOLD :: real where
  "LOW_COST_THRESHOLD = 800"

text \<open>The string literals of the source that are not ASCII (225 is a-acute, 227 a-tilde).\<close>

definition sem_inventario :: pystr where
  "sem_inventario = lit ''Sem invent'' @ [225] @ lit ''rio''"

definition premium_controlado :: pystr where
  "premium_controlado = lit ''Premium controlado''"

definition essencial :: pystr where
  "essencial = lit ''Essencial''"

definition nao_essencial :: pystr where
  "nao_essencial = lit ''N'' @ [227] @ lit ''o essencial''"

definition inventario_completo :: pystr where
  "inventario_completo = lit ''Invent'' @ [225] @ lit ''rio completo''"

text \<open>The set literal of \<open>classify_priority\<close>.\<close>

definition essential_item_types :: "pystr list" where
  "essential_item_types =
     [lit ''computador'', lit ''telefone'', lit ''monitor'', lit ''impressora'']"

text \<open>
  Lines 71 to 88 work column by column, each cell from the cells of its own row; the
  model computes them row by row, in the order of the source's statements. The two masked
  assignments to \<open>dep_referencia\<close> keep that order: the one for Macs first, the one for
  licences second.
\<close>

definition flag_row :: "sheet_row \<Rightarrow> flagged_row" where
  "flag_row x =
     (let valor = col_valor_unitario x;
          depreciacao = col_depreciacao_unitaria x;
          categoria' = str_strip (col_categoria x);
          numero = strip (fillna_str sem_inventario (col_numero_inventario x));
          usuario' = strip (fillna_str [] (col_usuario x));
          mac = str_contains (lit ''mac'') (col_nome x);
          license = str_contains (lit ''licenca'') (col_tipo_item x);
          low_cost = float_le valor (Fin LOW_COST_THRESHOLD);
          tem_usuario' = (length usuario' > 0);
          tem_inventario' = (\<not> search_ignorecase (lit ''sem'') numero);
          rastreados' = (tem_usuario' \<and> tem_inventario');
          dep = depreciacao;
          dep = (if mac then Fin MAC_REFERENCE_DEPRECIATION else dep);
          dep = (if license then Fin LICENSE_REFERENCE_DEPRECIATION else dep)
      in \<lparr>nome = col_nome x, status = col_status x, grupo = col_grupo x,
          usuario = usuario', numero_inventario = numero, tipo_item = col_tipo_item x,
          categoria = categoria', valor_unitario = valor, depreciacao_unitaria = depreciacao,
          is_mac = mac, is_license = license, is_low_cost = low_cost,
          tem_usuario = tem_usuario', tem_inventario = tem_inventario',
          rastreados = rastreados', dep_referencia = dep\<rparr>)"

text \<open>
  \<open>classify_priority\<close>: \<open>row["tipo_item"].lower()\<close> raises AttributeError on a missing
  cell, which is a float; the call is only reached when neither flag is set.
\<close>

definition classify_priority :: "'a flagged_row_scheme \<Rightarrow> error + pystr" where
  "classify_priority row =
     (if is_mac row \<or> is_license row then Inr premium_controlado
      else case tipo_item row of
             NA \<Rightarrow> Inl AttributeError
           | Str s \<Rightarrow>
               if lower s \<in> set essential_item_types then Inr essencial
               else Inr nao_essencial)"

text \<open>
  \<open>df.apply(f, axis=1)\<close>: \<open>f\<close> on each row in order; the first exception ends it. A
  frame without rows gives no priorities.
\<close>

fun apply_rows :: "('a \<Rightarrow> error + 'b) \<Rightarrow> 'a list \<Rightarrow> error + 'b list" where
  "apply_rows f [] = Inr []"
| "apply_rows f (x # xs) =
     (case f x of
        Inl e \<Rightarrow> Inl e
      | Inr y \<Rightarrow> (case apply_rows f xs of Inl e \<Rightarrow> Inl e | Inr ys \<Rightarrow> Inr (y # ys)))"

definition set_prioridade :: "flagged_row \<Rightarrow> pystr \<Rightarrow> inv_row" where
  "set_prioridade r p = flagged_row.extend r (inv_row.fields p)"

text \<open>
  The \<open>.str\<close> accessor of a column: pandas gives a column in which every cell is missing
  the dtype \<open>float64\<close> and refuses \<open>.str\<close> on it with AttributeError. A column with
  a string, and the column of a frame without rows, have the dtype \<open>object\<close>.
  \<open>numero_inventario\<close> and \<open>usuario\<close> go through \<open>astype(str)\<close> first and always
  have it.
\<close>

definition no_text :: "cell list \<Rightarrow> bool" where
  "no_text col \<longleftrightarrow> col \<noteq> [] \<and> list_all (\<lambda>c. c = NA) col"

definition load_inventory :: "sheet_row list \<Rightarrow> error + inv_row list" where
  "load_inventory sheet =
     (if no_text (map col_categoria sheet) \<or> no_text (map col_nome sheet) \<or>
         no_text (map col_tipo_item sheet)
      then Inl AttributeError
      else
        let df = map flag_row sheet
        in case apply_rows classify_priority df of
             Inl e \<Rightarrow> Inl e
           | Inr ps \<Rightarrow> Inr (map2 set_prioridade df ps))"

section \<open>Indicators\<close>

record insights =
  total_dep :: pyfloat
  patrimonio_total :: pyfloat
  avg_dep :: pyfloat
  mac_dep :: pyfloat
  license_dep :: pyfloat
  mac_count :: nat
  license_count :: nat
  tracked_pct :: pyfloat
  tracked_count :: nat
  low_cost_dep :: pyfloat
  low_cost_count :: nat
  low_cost_pct :: pyfloat
  sem_uso_pct :: pyfloat
  sem_uso_count :: nat
  centros :: "(pystr \<times> real) list"
  top_centros_share :: pyfloat
  top_centros_names :: pystr
  total_items :: nat

text \<open>
  The column labels of the canonical frame. \<open>df.get(label)\<close> is the column when the
  frame has that label and \<open>None\<close> otherwise. (Any further column of the spreadsheet
  carries a label made by \<open>normalize_column\<close>, which has no capital and no space.)
\<close>

definition frame_columns :: "pystr list" where
  "frame_columns =
     map lit [''nome'', ''status'', ''grupo'', ''usuario'', ''numero_inventario'',
       ''tipo_item'', ''categoria'', ''valor_unitario'', ''depreciacao_unitaria'',
       ''is_mac'', ''is_license'', ''is_low_cost'', ''tem_usuario'', ''tem_inventario'',
       ''rastreados'', ''dep_referencia'', ''prioridade'']"

definition has_column :: "pystr \<Rightarrow> bool" where
  "has_column label \<longleftrightarrow> label \<in> set frame_columns"

text \<open>The two labels that \<open>compute_insights\<close> asks for (231 is c-cedilla).\<close>

definition label_depreciacao_unitaria :: pystr where
  "label_depreciacao_unitaria =
     lit ''Deprecia'' @ [231, 227] @ lit ''o anual unit'' @ [225] @ lit ''ria (R$)''"

definition label_depreciacao_mercado :: pystr where
  "label_depreciacao_mercado = lit ''Depreciacao anual_% (mercado)''"

text \<open>
  \<open>df.groupby("grupo")["valor_unitario"].sum()\<close>: rows without a group are dropped, the
  groups come in ascending order of their key, each with the sum of its values.
\<close>

definition group_keys :: "inv_row list \<Rightarrow> pystr list" where
  "group_keys df = sort (remdups (concat (map (\<lambda>r. case grupo r of Str g \<Rightarrow> [g] | NA \<Rightarrow> []) df)))"

definition groupby_sum :: "inv_row list \<Rightarrow> (pystr \<times> real) list" where
  "groupby_sum df =
     map (\<lambda>g. (g, sum_skipna (map valor_unitario (filter (\<lambda>r. grupo r = Str g) df))))
       (group_keys df)"

text \<open>
  \<open>sort_values(ascending=False)\<close>, modelled by a stable sort; pandas sorts with
  quicksort by default and does not fix the order of groups with equal totals.
\<close>

definition sort_values_desc :: "(pystr \<times> real) list \<Rightarrow> (pystr \<times> real) list" where
  "sort_values_desc xs = sort_key (\<lambda>p. - snd p) xs"

text \<open>
  \<open>compute_insights\<close>. In \<open>df.get(a) or df.get(b) or pd.Series([0] * len(df))\<close>, Python
  asks each operand for its truth value in turn: \<open>None\<close> is false and passes on to the
  next operand, a column raises ValueError (the truth value of a Series is ambiguous).
\<close>

definition compute_insights :: "inv_row list \<Rightarrow> error + insights" where
  "compute_insights df =
     (if has_column label_depreciacao_unitaria then Inl ValueError
      else if has_column label_depreciacao_mercado then Inl ValueError
      else
        let n = (if length df = 0 then 1 else length df);
            total = series_sum (replicate (length df) (Fin 0));
            patr_total = series_sum (map valor_unitario df);
            avg = fdiv total (real n);
            mac_mask = map is_mac df;
            lic_mask = map is_license df;
            low_mask = map is_low_cost df;
            tracked_mask = map rastreados df;
            sem_uso = length (filter (\<lambda>r. status r = Str (lit ''Sem Uso'')) df);
            cs = sort_values_desc (groupby_sum df);
            centros_total = (if sum_list (map snd cs) = 0 then 1 else sum_list (map snd cs));
            top_centros = take 2 cs
        in Inr \<lparr>total_dep = total,
                patrimonio_total = patr_total,
                avg_dep = avg,
                mac_dep = series_sum (map dep_referencia (filter is_mac df)),
                license_dep = series_sum (map dep_referencia (filter is_license df)),
                mac_count = length (filter (\<lambda>b. b) mac_mask),
                license_count = length (filter (\<lambda>b. b) lic_mask),
                tracked_pct = fmul (mask_mean tracked_mask) 100,
                tracked_count = length (filter (\<lambda>b. b) tracked_mask),
                low_cost_dep = series_sum (map dep_referencia (filter is_low_cost df)),
                low_cost_count = length (filter (\<lambda>b. b) low_mask),
                low_cost_pct = fmul (mask_mean low_mask) 100,
                sem_uso_pct = Fin (real sem_uso / real n * 100),
                sem_uso_count = sem_uso,
                centros = cs,
                top_centros_share =
                  (if top_centros = [] then Fin 0
                   else Fin (sum_list (map snd top_centros) / centros_total * 100)),
                top_centros_names = join (lit '', '') (map fst top_centros),
                total_items = length df\<rparr>)"

section \<open>The priority filter\<close>

definition apply_priority_filter :: "inv_row list \<Rightarrow> pystr \<Rightarrow> inv_row list" where
  "apply_priority_filter df selection =
     (if selection = inventario_completo \<or> selection \<notin> set (unique (map prioridade df))
      then df
      else filter (\<lambda>r. prioridade r = selection) df)"

section \<open>Sample rows\<close>

text \<open>
  Rows of a spreadsheet and the canonical rows that \<open>load_inventory\<close> makes of them, for
  the evaluations below: a notebook with owner and inventory code, and variants of it.
\<close>

definition notebook :: sheet_row where
  "notebook = \<lparr>col_nome = Str (lit ''Notebook Dell''), col_status = Str (lit ''Em uso''),
     col_grupo = Str (lit ''TI''), col_usuario = Str (lit ''Ana''),
     col_numero_inventario = Str (lit ''INV-001''), col_tipo_item = Str (lit ''Computador''),
     col_categoria = Str (lit ''Hardware''), col_valor_unitario = Fin 5000,
     col_depreciacao_unitaria = Fin 300\<rparr>"

definition notebook_row :: inv_row where
  "notebook_row = \<lparr>nome = Str (lit ''Notebook Dell''), status = Str (lit ''Em uso''),
     grupo = Str (lit ''TI''), usuario = lit ''Ana'', numero_inventario = lit ''INV-001'',
     tipo_item = Str (lit ''Computador''), categoria = Str (lit ''Hardware''),
     valor_unitario = Fin 5000, depreciacao_unitaria = Fin 300,
     is_mac = False, is_license = False, is_low_cost = False,
     tem_usuario = True, tem_inventario = True, rastreados = True,
     dep_referencia = Fin 300, prioridade = essencial\<rparr>"

definition macbook :: sheet_row where
  "macbook = notebook\<lparr>col_nome := Str (lit ''MacBook Pro'')\<rparr>"

definition macbook_row :: inv_row where
  "macbook_row = notebook_row\<lparr>nome := Str (lit ''MacBook Pro''), is_mac := True,
     dep_referencia := Fin 2145, prioridade := premium_controlado\<rparr>"

definition mac_licenca :: sheet_row where
  "mac_licenca = macbook\<lparr>col_tipo_item := Str (lit ''Licenca Adobe'')\<rparr>"

definition mac_licenca_row :: inv_row where
  "mac_licenca_row = macbook_row\<lparr>tipo_item := Str (lit ''Licenca Adobe''), is_license := True,
     dep_referencia := Fin 1200\<rparr>"

definition licenca_cedilha :: sheet_row where
  "licenca_cedilha = notebook\<lparr>col_tipo_item := Str (lit ''Licen'' @ [231] @ lit ''a'')\<rparr>"

definition licenca_cedilha_row :: inv_row where
  "licenca_cedilha_row = notebook_row\<lparr>tipo_item := Str (lit ''Licen'' @ [231] @ lit ''a''),
     prioridade := nao_essencial\<rparr>"

definition no_code :: sheet_row where
  "no_code = notebook\<lparr>col_numero_inventario := NA\<rparr>"

definition no_code_row :: inv_row where
  "no_code_row = notebook_row\<lparr>numero_inventario := sem_inventario, tem_inventario := False,
     rastreados := False\<rparr>"

definition blank_code :: sheet_row where
  "blank_code = notebook\<lparr>col_numero_inventario := Str (lit ''   '')\<rparr>"

definition blank_code_row :: inv_row where
  "blank_code_row = notebook_row\<lparr>numero_inventario := []\<rparr>"

definition computer_item :: sheet_row where
  "computer_item = notebook\<lparr>col_tipo_item := Str (lit ''computer'')\<rparr>"

definition computer_item_row :: inv_row where
  "computer_item_row = notebook_row\<lparr>tipo_item := Str (lit ''computer''),
     prioridade := nao_essencial\<rparr>"

definition negative_value :: sheet_row where
  "negative_value = notebook\<lparr>col_valor_unitario := Fin (- 5)\<rparr>"

definition negative_value_row :: inv_row where
  "negative_value_row = notebook_row\<lparr>valor_unitario := Fin (- 5), is_low_cost := True\<rparr>"

text \<open>
  The entries of Unicode's decomposition table for the three accented letters of the
  labels above: c-cedilla, a-tilde and a-acute are their base letter and a combining mark.
\<close>

definition sample_decomposition :: "nat \<Rightarrow> pystr" where
  "sample_decomposition c =
     (if c = 231 then [99, 807] else if c = 227 then [97, 771]
      else if c = 225 then [97, 769] else [])"

section \<open>Properties of the string functions\<close>

lemma word_char_facts:
  "word_char c \<Longrightarrow> in_class c" "word_char c \<Longrightarrow> \<not> isspace c" "word_char c \<Longrightarrow> c < 128"
  "word_char c \<Longrightarrow> c \<noteq> 10" "word_char c \<Longrightarrow> lower_cp c = c" "word_char c \<Longrightarrow> c \<noteq> 32"
  by (auto simp: word_char_def in_class_def isspace_def lower_cp_def)

lemma in_class_not_space: "in_class c \<Longrightarrow> \<not> isspace c \<Longrightarrow> word_char c"
  by (auto simp: word_char_def in_class_def isspace_def)

lemma re_sub_in_class: "c \<in> set (re_sub s) \<Longrightarrow> in_class c"
  by (induction s rule: re_sub.induct) (auto simp: in_class_def split: if_splits)

lemma split_words: "w \<in> set (split s) \<Longrightarrow> w \<noteq> [] \<and> set w \<subseteq> set s \<and> (\<forall>c\<in>set w. \<not> isspace c)"
proof (induction s rule: split.induct)
  case 1
  then show ?case by simp
next
  case (2 c cs)
  show ?case
  proof (cases "isspace c")
    case True
    with 2 show ?thesis by auto
  next
    case False
    let ?P = "\<lambda>d. \<not> isspace d"
    from 2(3) False have "w = c # takeWhile ?P cs \<or> w \<in> set (split (dropWhile ?P cs))"
      by simp
    then show ?thesis
    proof
      assume w: "w = c # takeWhile ?P cs"
      have "set (takeWhile ?P cs) \<subseteq> set cs" by (auto dest: set_takeWhileD)
      moreover have "\<forall>d\<in>set (takeWhile ?P cs). ?P d" by (auto dest: set_takeWhileD)
      ultimately show ?thesis using w False by auto
    next
      assume "w \<in> set (split (dropWhile ?P cs))"
      with 2(2) False have "w \<noteq> [] \<and> set w \<subseteq> set (dropWhile ?P cs) \<and> (\<forall>c\<in>set w. \<not> isspace c)"
        by simp
      moreover have "set (dropWhile ?P cs) \<subseteq> set cs" by (auto dest: set_dropWhileD)
      ultimately show ?thesis by auto
    qed
  qed
qed

lemma label_words_split_re_sub: "label_words (split (re_sub s))"
  unfolding label_words_def
  using split_words re_sub_in_class in_class_not_space by blast


lemma set_join_underscore: "label_words ws \<Longrightarrow> c \<in> set (join [95] ws) \<Longrightarrow> word_char c \<or> c = 95"
  by (induction "[95::nat]" ws rule: join.induct) (auto simp: label_words_def)

lemma nfkd_ascii_id: "\<forall>c\<in>set s. c < 128 \<Longrightarrow> nfkd_ascii d s = s"
  by (induction s) (auto simp: nfkd_ascii_def)

lemma replace_id: "a \<notin> set s \<Longrightarrow> replace a b s = s"
  by (induction s) (auto simp: replace_def)

lemma lower_id: "\<forall>c\<in>set s. lower_cp c = c \<Longrightarrow> lower s = s"
  by (simp add: lower_def map_idI)

lemma dropWhile_hd_id: "s = [] \<or> \<not> P (hd s) \<Longrightarrow> dropWhile P s = s"
  by (cases s) auto

lemma strip_id:
  assumes "s = [] \<or> (\<not> isspace (hd s) \<and> \<not> isspace (last s))"
  shows "strip s = s"
proof -
  from assms have 1: "dropWhile isspace s = s" by (intro dropWhile_hd_id) auto
  from assms have "rev s = [] \<or> \<not> isspace (hd (rev s))" by (auto simp: hd_rev)
  then have "dropWhile isspace (rev s) = rev s" by (rule dropWhile_hd_id)
  with 1 show ?thesis by (simp add: strip_def)
qed

lemma hd_join: "ws \<noteq> [] \<Longrightarrow> hd ws \<noteq> [] \<Longrightarrow> hd (join sep ws) = hd (hd ws)"
  by (induction sep ws rule: join.induct) auto

lemma join_Nil_iff: "label_words ws \<Longrightarrow> join sep ws = [] \<longleftrightarrow> ws = []"
  by (induction sep ws rule: join.induct) (auto simp: label_words_def)

lemma last_join: "label_words ws \<Longrightarrow> ws \<noteq> [] \<Longrightarrow> last (join sep ws) = last (last ws)"
proof (induction sep ws rule: join.induct)
  case (3 sep w v ws)
  then have g: "label_words (v # ws)" by (simp add: label_words_def)
  then have "join sep (v # ws) \<noteq> []" using join_Nil_iff by blast
  with 3 g show ?case by simp
qed auto

lemma re_sub_word_append: "\<forall>c\<in>set w. in_class c \<Longrightarrow> re_sub (w @ s) = w @ re_sub s"
  by (induction w) auto

lemma re_sub_join: "label_words ws \<Longrightarrow> re_sub (join [95] ws) = join [32] ws"
proof (induction "[95::nat]" ws rule: join.induct)
  case 1
  then show ?case by simp
next
  case (2 w)
  then have "\<forall>c\<in>set w. in_class c" by (auto simp: label_words_def word_char_facts)
  from re_sub_word_append[OF this, of "[]"] show ?case by simp
next
  case (3 w v ws)
  then have w: "\<forall>c\<in>set w. in_class c" and v: "v \<noteq> []" "in_class (hd v)"
    and g: "label_words (v # ws)"
    by (auto simp: label_words_def word_char_facts)
  have "hd (join [95] (v # ws)) = hd v" using v by (simp add: hd_join)
  moreover have "join [95] (v # ws) \<noteq> []" using g join_Nil_iff by blast
  ultimately have "dropWhile (\<lambda>d. \<not> in_class d) (join [95] (v # ws)) = join [95] (v # ws)"
    using v by (cases "join [95] (v # ws)") auto
  moreover have "\<not> in_class 95" by (simp add: in_class_def)
  ultimately have "re_sub (95 # join [95] (v # ws)) = 32 # re_sub (join [95] (v # ws))"
    by simp
  with 3 g w show ?case by (simp add: re_sub_word_append)
qed

lemma split_word_append:
  "w \<noteq> [] \<Longrightarrow> \<forall>c\<in>set w. \<not> isspace c \<Longrightarrow> s = [] \<or> isspace (hd s) \<Longrightarrow> split (w @ s) = w # split s"
proof -
  assume w: "w \<noteq> []" "\<forall>c\<in>set w. \<not> isspace c" and s: "s = [] \<or> isspace (hd s)"
  then obtain c cs where wc: "w = c # cs" by (cases w) auto
  let ?P = "\<lambda>d. \<not> isspace d"
  from s have t: "takeWhile ?P (cs @ s) = cs" and d: "dropWhile ?P (cs @ s) = s"
    using w wc by (cases s; auto simp: takeWhile_append dropWhile_append)+
  from w wc have "\<not> isspace c" by simp
  then show ?thesis using wc t d by simp
qed

lemma split_join: "label_words ws \<Longrightarrow> split (join [32] ws) = ws"
proof (induction "[32::nat]" ws rule: join.induct)
  case 1
  then show ?case by simp
next
  case (2 w)
  then have "w \<noteq> []" "\<forall>c\<in>set w. \<not> isspace c" by (auto simp: label_words_def word_char_facts)
  from split_word_append[OF this, of "[]"] show ?case by simp
next
  case (3 w v ws)
  then have w: "w \<noteq> []" "\<forall>c\<in>set w. \<not> isspace c" and g: "label_words (v # ws)"
    by (auto simp: label_words_def word_char_facts)
  have sp: "isspace 32" by (simp add: isspace_def)
  then have "split (w @ 32 # join [32] (v # ws)) = w # split (32 # join [32] (v # ws))"
    using split_word_append[OF w, of "32 # join [32] (v # ws)"] by simp
  with 3 g sp show ?case by simp
qed

lemma normalize_column_fixed:
  assumes g: "label_words ws"
  shows "normalize_column d (join [95] ws) = join [95] ws"
proof -
  let ?s = "join [95] ws"
  have c: "\<forall>c\<in>set ?s. word_char c \<or> c = 95" using g set_join_underscore by blast
  then have 1: "nfkd_ascii d ?s = ?s" by (intro nfkd_ascii_id) (auto simp: word_char_facts)
  from c have 2: "replace 10 32 ?s = ?s" by (intro replace_id) (auto simp: word_char_def)
  have 3: "strip ?s = ?s"
  proof (cases ws)
    case Nil
    then show ?thesis by (simp add: strip_def)
  next
    case (Cons v vs)
    then have ne: "ws \<noteq> []" by simp
    then have "hd ws \<in> set ws" "last ws \<in> set ws" by simp_all
    with g have "hd ws \<noteq> []" "last ws \<noteq> []" "\<forall>c\<in>set (hd ws). word_char c" "\<forall>c\<in>set (last ws). word_char c"
      by (auto simp: label_words_def)
    then have "hd ws \<noteq> []" "word_char (hd (hd ws))" "word_char (last (last ws))"
      by simp_all
    with g ne have "\<not> isspace (hd ?s)" "\<not> isspace (last ?s)"
      by (simp_all add: hd_join last_join word_char_facts del: join.simps)
    then show ?thesis by (intro strip_id) simp
  qed
  have "lower_cp c = c" if "word_char c \<or> c = 95" for c
    using that by (auto simp: word_char_def lower_cp_def)
  with c have 4: "lower ?s = ?s" by (intro lower_id) blast
  show ?thesis
    by (simp add: normalize_column_def 1 2 3 4 re_sub_join[OF g] split_join[OF g])
qed

text \<open>What the search finds is a substring that matches the pattern letter by letter.\<close>

lemma match_here_iff:
  "match_here pat s \<longleftrightarrow> (\<exists>v w. s = v @ w \<and> list_all2 ignorecase_eq pat v)"
proof (induction pat s rule: match_here.induct)
  case (1 s)
  then show ?case by simp
next
  case (2 p ps)
  then show ?case by simp
next
  case (3 p ps c cs)
  show ?case
  proof
    assume "match_here (p # ps) (c # cs)"
    with 3 obtain v w where "cs = v @ w" "list_all2 ignorecase_eq ps v" "ignorecase_eq p c"
      by auto
    then have "c # cs = (c # v) @ w \<and> list_all2 ignorecase_eq (p # ps) (c # v)" by simp
    then show "\<exists>v w. c # cs = v @ w \<and> list_all2 ignorecase_eq (p # ps) v" by blast
  next
    assume "\<exists>v w. c # cs = v @ w \<and> list_all2 ignorecase_eq (p # ps) v"
    then obtain v w where vw: "c # cs = v @ w" "list_all2 ignorecase_eq (p # ps) v" by blast
    then obtain d v' where v: "v = d # v'" "ignorecase_eq p d" "list_all2 ignorecase_eq ps v'"
      by (auto simp: list_all2_Cons1)
    with vw have "d = c" "cs = v' @ w" by simp_all
    with v 3 show "match_here (p # ps) (c # cs)" by auto
  qed
qed

lemma search_ignorecase_iff:
  "search_ignorecase pat s \<longleftrightarrow> (\<exists>u v w. s = u @ v @ w \<and> list_all2 ignorecase_eq pat v)"
proof (induction s)
  case Nil
  then show ?case by (simp add: match_here_iff)
next
  case (Cons c cs)
  show ?case
  proof
    assume "search_ignorecase pat (c # cs)"
    then consider "match_here pat (c # cs)" | "search_ignorecase pat cs" by auto
    then show "\<exists>u v w. c # cs = u @ v @ w \<and> list_all2 ignorecase_eq pat v"
    proof cases
      case 1
      then obtain v w where "c # cs = [] @ v @ w" "list_all2 ignorecase_eq pat v"
        by (auto simp: match_here_iff)
      then show ?thesis by blast
    next
      case 2
      with Cons obtain u v w where "cs = u @ v @ w" "list_all2 ignorecase_eq pat v" by blast
      then have "c # cs = (c # u) @ v @ w \<and> list_all2 ignorecase_eq pat v" by simp
      then show ?thesis by blast
    qed
  next
    assume "\<exists>u v w. c # cs = u @ v @ w \<and> list_all2 ignorecase_eq pat v"
    then obtain u v w where uvw: "c # cs = u @ v @ w" "list_all2 ignorecase_eq pat v" by blast
    show "search_ignorecase pat (c # cs)"
    proof (cases u)
      case Nil
      with uvw have "match_here pat (c # cs)" by (auto simp: match_here_iff)
      then show ?thesis by simp
    next
      case (Cons d u')
      with uvw have "cs = u' @ v @ w" by simp
      with uvw Cons.IH have "search_ignorecase pat cs" by blast
      then show ?thesis by simp
    qed
  qed
qed

text \<open>
  No label that \<open>normalize_column\<close> returns is one of the two labels that
  \<open>compute_insights\<close> asks for: both have a capital letter.
\<close>

lemma normalize_column_chars:
  "c \<in> set (normalize_column d s) \<Longrightarrow> word_char c \<or> c = 95"
  using label_words_split_re_sub set_join_underscore
  by (auto simp: normalize_column_def Let_def)

lemma normalize_column_not_asked_for:
  "normalize_column d s \<noteq> label_depreciacao_unitaria"
  "normalize_column d s \<noteq> label_depreciacao_mercado"
proof -
  have "\<not> (word_char 68 \<or> (68::nat) = 95)" by (simp add: word_char_def)
  moreover have "68 \<in> set label_depreciacao_unitaria" "68 \<in> set label_depreciacao_mercado"
    by (simp_all add: label_depreciacao_unitaria_def label_depreciacao_mercado_def lit_def)
  ultimately show "normalize_column d s \<noteq> label_depreciacao_unitaria"
    "normalize_column d s \<noteq> label_depreciacao_mercado"
    using normalize_column_chars by metis+
qed

section \<open>Properties of the frame functions\<close>

lemmas eval_defs =
  load_inventory_def no_text_def flag_row_def classify_priority_def lit_def str_contains_def
  str_strip_def fillna_str_def strip_def isspace_def ignorecase_eq_def lower_def lower_cp_def
  essential_item_types_def set_prioridade_def flagged_row.defs inv_row.defs
  LOW_COST_THRESHOLD_def MAC_REFERENCE_DEPRECIATION_def LICENSE_REFERENCE_DEPRECIATION_def
  essencial_def nao_essencial_def premium_controlado_def sem_inventario_def Let_def
  notebook_def notebook_row_def macbook_def macbook_row_def mac_licenca_def mac_licenca_row_def
  licenca_cedilha_def licenca_cedilha_row_def no_code_def no_code_row_def blank_code_def
  blank_code_row_def negative_value_def negative_value_row_def computer_item_def
  computer_item_row_def

lemmas insights_defs =
  compute_insights_def has_column_def frame_columns_def label_depreciacao_unitaria_def
  label_depreciacao_mercado_def lit_def series_sum_def sum_skipna_def mask_mean_def
  sort_values_desc_def groupby_sum_def group_keys_def Let_def

lemma load_notebook: "load_inventory [notebook] = Inr [notebook_row]"
  by (simp add: eval_defs Let_def notebook_def notebook_row_def)

lemma sel_set_prioridade:
  "nome (set_prioridade r p) = nome r" "usuario (set_prioridade r p) = usuario r"
  "numero_inventario (set_prioridade r p) = numero_inventario r"
  "tipo_item (set_prioridade r p) = tipo_item r"
  "valor_unitario (set_prioridade r p) = valor_unitario r"
  "depreciacao_unitaria (set_prioridade r p) = depreciacao_unitaria r"
  "is_mac (set_prioridade r p) = is_mac r" "is_license (set_prioridade r p) = is_license r"
  "tem_usuario (set_prioridade r p) = tem_usuario r"
  "tem_inventario (set_prioridade r p) = tem_inventario r"
  "rastreados (set_prioridade r p) = rastreados r"
  "dep_referencia (set_prioridade r p) = dep_referencia r"
  "prioridade (set_prioridade r p) = p"
  by (cases r; simp add: set_prioridade_def flagged_row.defs inv_row.defs)+

lemma apply_rows_length: "apply_rows f xs = Inr ys \<Longrightarrow> length ys = length xs"
  by (induction xs arbitrary: ys) (auto split: sum.splits)

lemma apply_rows_nth:
  "apply_rows f xs = Inr ys \<Longrightarrow> i < length xs \<Longrightarrow> f (xs ! i) = Inr (ys ! i)"
proof (induction xs arbitrary: ys i)
  case Nil
  then show ?case by simp
next
  case (Cons x xs)
  then show ?case by (cases i) (auto split: sum.splits)
qed

lemma load_inventory_length: "load_inventory sheet = Inr df \<Longrightarrow> length df = length sheet"
  by (auto simp: load_inventory_def Let_def apply_rows_length split: sum.splits if_splits)

lemma load_inventory_nth:
  assumes "load_inventory sheet = Inr df" "i < length sheet"
  shows "\<exists>p. classify_priority (flag_row (sheet ! i)) = Inr p \<and>
             df ! i = set_prioridade (flag_row (sheet ! i)) p"
proof -
  from assms(1) obtain ps where ps: "apply_rows classify_priority (map flag_row sheet) = Inr ps"
    and df: "df = map2 set_prioridade (map flag_row sheet) ps"
    by (auto simp: load_inventory_def Let_def split: sum.splits if_splits)
  from apply_rows_length[OF ps] have len: "length ps = length sheet" by simp
  from apply_rows_nth[OF ps, of i] assms(2)
  have "classify_priority (flag_row (sheet ! i)) = Inr (ps ! i)" by simp
  moreover from df len assms(2) have "df ! i = set_prioridade (flag_row (sheet ! i)) (ps ! i)"
    by simp
  ultimately show ?thesis by blast
qed

lemma load_inventory_member:
  assumes "load_inventory sheet = Inr df" "r \<in> set df"
  shows "\<exists>x p. x \<in> set sheet \<and> classify_priority (flag_row x) = Inr p \<and>
               r = set_prioridade (flag_row x) p"
proof -
  from assms(2) obtain i where i: "i < length df" "r = df ! i"
    by (auto simp: in_set_conv_nth)
  with load_inventory_length[OF assms(1)] have "i < length sheet" by simp
  from load_inventory_nth[OF assms(1) this] i this show ?thesis by (metis nth_mem)
qed


lemma set_unique: "set (unique xs) = set xs"
  by (simp add: unique_def)


lemma load_macbook: "load_inventory [macbook] = Inr [macbook_row]"
  by (simp add: eval_defs)

lemma load_mac_licenca: "load_inventory [mac_licenca] = Inr [mac_licenca_row]"
  by (simp add: eval_defs)

lemma load_no_code: "load_inventory [no_code] = Inr [no_code_row]"
  by (simp add: eval_defs)

lemma load_computer_item: "load_inventory [computer_item] = Inr [computer_item_row]"
  by (simp add: eval_defs)

section \<open>The claims\<close>

text \<open>
  Claim C1: for every sequence of canonical records, the snapshot returned by
  \<open>compute_insights\<close> has a total depreciation equal to the sum of the reference
  depreciation over the records. The code does not compute that: on the canonical frame of
  the one notebook, whose reference depreciation is 300, neither label it asks for is a
  column (they are the spreadsheet's labels of the unit depreciation and of the market
  rate), so it sums a column of zeros and \<open>total_dep\<close> is 0.
\<close>

theorem compute_insights_notebook:
  "load_inventory [notebook] = Inr [notebook_row] \<and>
   compute_insights [notebook_row] =
     Inr \<lparr>total_dep = Fin 0, patrimonio_total = Fin 5000, avg_dep = Fin 0, mac_dep = Fin 0,
          license_dep = Fin 0, mac_count = 0, license_count = 0, tracked_pct = Fin 100,
          tracked_count = 1, low_cost_dep = Fin 0, low_cost_count = 0, low_cost_pct = Fin 0,
          sem_uso_pct = Fin 0, sem_uso_count = 0, centros = [(lit ''TI'', 5000)],
          top_centros_share = Fin 100, top_centros_names = lit ''TI'', total_items = 1\<rparr> \<and>
   series_sum (map dep_referencia [notebook_row]) = Fin 300"
  using load_notebook by (simp add: insights_defs notebook_row_def)

text \<open>
  Claim C2: for the empty collection \<open>compute_insights\<close> does not fail, counts 0 items,
  and every share is 0, never NaN. The code returns, with 0 items, and the share of idle
  items and of the top groups are 0; the share of tracked items and the share of low-cost
  items are the mean of an empty column, which is NaN.
\<close>

theorem compute_insights_empty:
  "compute_insights [] =
     Inr \<lparr>total_dep = Fin 0, patrimonio_total = Fin 0, avg_dep = Fin 0, mac_dep = Fin 0,
          license_dep = Fin 0, mac_count = 0, license_count = 0, tracked_pct = NaN,
          tracked_count = 0, low_cost_dep = Fin 0, low_cost_count = 0, low_cost_pct = NaN,
          sem_uso_pct = Fin 0, sem_uso_count = 0, centros = [],
          top_centros_share = Fin 0, top_centros_names = [], total_items = 0\<rparr>"
  by (simp add: insights_defs)

text \<open>
  Claim C3: in every record that \<open>load_inventory\<close> produces, the reference depreciation
  is \<open>LICENSE_REFERENCE_DEPRECIATION\<close> if \<open>is_license\<close> holds, also when \<open>is_mac\<close>
  holds too; it is \<open>MAC_REFERENCE_DEPRECIATION\<close> if \<open>is_mac\<close> holds and
  \<open>is_license\<close> does not; and it is the unit depreciation if neither holds.
\<close>

theorem dep_referencia_override:
  assumes "load_inventory sheet = Inr df" and "r \<in> set df"
  shows "dep_referencia r =
           (if is_license r then Fin LICENSE_REFERENCE_DEPRECIATION
            else if is_mac r then Fin MAC_REFERENCE_DEPRECIATION
            else depreciacao_unitaria r)"
proof -
  from load_inventory_member[OF assms] obtain x p where "r = set_prioridade (flag_row x) p"
    by blast
  then show ?thesis by (simp add: sel_set_prioridade flag_row_def Let_def)
qed

text \<open>The witness for C3: a Mac that is a licence gets the reference value of licences.\<close>

theorem dep_referencia_override_witness:
  "load_inventory [mac_licenca] = Inr [mac_licenca_row] \<and> mac_licenca_row \<in> set [mac_licenca_row] \<and>
   is_mac mac_licenca_row \<and> is_license mac_licenca_row \<and>
   dep_referencia mac_licenca_row = Fin LICENSE_REFERENCE_DEPRECIATION"
  using dep_referencia_override [of "[mac_licenca]" "[mac_licenca_row]" mac_licenca_row] load_mac_licenca
  by (simp add: mac_licenca_row_def macbook_row_def notebook_row_def)

text \<open>
  Claim C4 says that the priority of every record that \<open>load_inventory\<close> produces is
  the first match of: a Mac or a licence, then premium; otherwise an item type that in
  lower case is one of \<open>computer\<close>, \<open>phone\<close>, \<open>monitor\<close>, \<open>printer\<close>, then essential;
  otherwise non-essential. The set of the source is \<open>computador\<close>, \<open>telefone\<close>,
  \<open>monitor\<close>, \<open>impressora\<close>: a row that is no Mac and no licence and has the item type
  \<open>computer\<close> is non-essential.
\<close>

theorem prioridade_computer_counterexample:
  "col_tipo_item computer_item = Str (lit ''computer'') \<and>
   load_inventory [computer_item] = Inr [computer_item_row] \<and>
   \<not> is_mac computer_item_row \<and> \<not> is_license computer_item_row \<and>
   tipo_item computer_item_row = Str (lit ''computer'') \<and>
   lower (lit ''computer'') = lit ''computer'' \<and>
   prioridade computer_item_row = nao_essencial \<and>
   prioridade computer_item_row \<noteq> essencial"
  by (simp add: eval_defs)

text \<open>
  Claim C4 as amended: in every record that \<open>load_inventory\<close> produces, the priority is
  the first match of: \<open>is_mac\<close> or \<open>is_license\<close>, then \<open>Premium controlado\<close>, also
  when the item type is an essential one; otherwise the item type is a text that in lower
  case is one of \<open>computador\<close>, \<open>telefone\<close>, \<open>monitor\<close>, \<open>impressora\<close>, then
  \<open>Essencial\<close>; otherwise \<open>Nao essencial\<close> (with a-tilde).
\<close>

theorem prioridade_first_match:
  assumes "load_inventory sheet = Inr df" and "r \<in> set df"
  shows "prioridade r =
           (if is_mac r \<or> is_license r then premium_controlado
            else if \<exists>s. tipo_item r = Str s \<and> lower s \<in> set essential_item_types
              then essencial
            else nao_essencial)"
proof -
  from load_inventory_member[OF assms] obtain x p
    where p: "classify_priority (flag_row x) = Inr p" and r: "r = set_prioridade (flag_row x) p"
    by blast
  from p show ?thesis unfolding r
    by (auto simp: sel_set_prioridade classify_priority_def split: if_splits cell.splits)
qed

text \<open>
  The witness for C4 as amended, one row for each of the three cases: a Mac whose item type
  is \<open>Computador\<close> is premium, the notebook with that item type is essential, and the
  row with the item type \<open>computer\<close> is non-essential.
\<close>

theorem prioridade_first_match_witness:
  "load_inventory [macbook] = Inr [macbook_row] \<and> macbook_row \<in> set [macbook_row] \<and>
   is_mac macbook_row \<and> tipo_item macbook_row = Str (lit ''Computador'') \<and>
   lower (lit ''Computador'') \<in> set essential_item_types \<and>
   prioridade macbook_row = premium_controlado \<and>
   load_inventory [notebook] = Inr [notebook_row] \<and> notebook_row \<in> set [notebook_row] \<and>
   \<not> is_mac notebook_row \<and> \<not> is_license notebook_row \<and>
   tipo_item notebook_row = Str (lit ''Computador'') \<and>
   prioridade notebook_row = essencial \<and>
   load_inventory [computer_item] = Inr [computer_item_row] \<and>
   computer_item_row \<in> set [computer_item_row] \<and>
   \<not> is_mac computer_item_row \<and> \<not> is_license computer_item_row \<and>
   tipo_item computer_item_row = Str (lit ''computer'') \<and>
   lower (lit ''computer'') \<notin> set essential_item_types \<and>
   prioridade computer_item_row = nao_essencial"
  using prioridade_first_match [of "[macbook]" "[macbook_row]" macbook_row]
    prioridade_first_match [of "[notebook]" "[notebook_row]" notebook_row]
    prioridade_first_match [of "[computer_item]" "[computer_item_row]" computer_item_row]
    load_macbook load_notebook load_computer_item
  by (simp add: macbook_row_def notebook_row_def computer_item_row_def lit_def lower_def
      lower_cp_def essential_item_types_def)

text \<open>
  Claim C5: \<open>apply_priority_filter\<close> returns the frame it was given, unchanged, when the
  selection is the label for the whole inventory or is the priority of none of its records;
  otherwise it returns exactly the records whose priority is the selection, in their order.
\<close>

theorem apply_priority_filter_cases:
  "apply_priority_filter df selection =
     (if selection = inventario_completo \<or> (\<forall>r\<in>set df. prioridade r \<noteq> selection) then df
      else filter (\<lambda>r. prioridade r = selection) df)"
  by (auto simp: apply_priority_filter_def set_unique)

text \<open>
  The witness for C5, on a frame of an essential and a premium record: selecting the
  essential ones, the whole inventory, and a priority that no record has.
\<close>

theorem apply_priority_filter_cases_witness:
  "apply_priority_filter [notebook_row, macbook_row] essencial = [notebook_row] \<and>
   apply_priority_filter [notebook_row, macbook_row] inventario_completo =
     [notebook_row, macbook_row] \<and>
   apply_priority_filter [notebook_row, macbook_row] nao_essencial =
     [notebook_row, macbook_row]"
  using apply_priority_filter_cases [of "[notebook_row, macbook_row]" essencial]
    apply_priority_filter_cases [of "[notebook_row, macbook_row]" inventario_completo]
    apply_priority_filter_cases [of "[notebook_row, macbook_row]" nao_essencial]
  by (simp add: macbook_row_def notebook_row_def lit_def essencial_def nao_essencial_def
      premium_controlado_def inventario_completo_def)

text \<open>
  Claim C6: in every record that \<open>load_inventory\<close> produces, \<open>rastreados\<close> is the
  conjunction of \<open>tem_usuario\<close>, which says that the owner is not the empty string, and
  \<open>tem_inventario\<close>, which says that the inventory code does not contain the marker
  \<open>sem\<close> in any letter case.
\<close>

theorem rastreados_conjunction:
  assumes "load_inventory sheet = Inr df" and "r \<in> set df"
  shows "rastreados r = (tem_usuario r \<and> tem_inventario r) \<and>
         tem_usuario r = (usuario r \<noteq> []) \<and>
         tem_inventario r = (\<not> search_ignorecase (lit ''sem'') (numero_inventario r))"
proof -
  from load_inventory_member[OF assms] obtain x p where "r = set_prioridade (flag_row x) p"
    by blast
  then show ?thesis by (simp add: sel_set_prioridade flag_row_def Let_def)
qed

text \<open>The witness for C6: a row without inventory code has an owner and is not tracked.\<close>

theorem rastreados_conjunction_witness:
  "load_inventory [no_code] = Inr [no_code_row] \<and> no_code_row \<in> set [no_code_row] \<and>
   tem_usuario no_code_row \<and> \<not> tem_inventario no_code_row \<and> \<not> rastreados no_code_row \<and>
   usuario no_code_row = lit ''Ana'' \<and>
   search_ignorecase (lit ''sem'') (numero_inventario no_code_row)"
  using rastreados_conjunction [of "[no_code]" "[no_code_row]" no_code_row] load_no_code
  by (simp add: no_code_row_def notebook_row_def lit_def)




text \<open>
  Claim C8 says that \<open>is_license\<close> holds if and only if the item type contains
  \<open>licen\<close> in any letter case. The code searches for \<open>licenca\<close>: the item type
  \<open>Licenca\<close> written with c-cedilla contains \<open>licen\<close> and is not flagged.
\<close>

theorem is_license_licen_counterexample:
  "load_inventory [licenca_cedilha] = Inr [licenca_cedilha_row] \<and>
   tipo_item licenca_cedilha_row = Str (lit ''Licen'' @ [231] @ lit ''a'') \<and>
   search_ignorecase (lit ''licen'') (lit ''Licen'' @ [231] @ lit ''a'') \<and>
   \<not> is_license licenca_cedilha_row"
  by (simp add: eval_defs)

text \<open>
  Claim C8 as amended: in every record that \<open>load_inventory\<close> produces, \<open>is_license\<close>
  holds if and only if the item type is a text that contains \<open>licenca\<close>, spelt without
  cedilla, in any letter case.
\<close>

theorem is_license_licenca:
  assumes "load_inventory sheet = Inr df" and "r \<in> set df"
  shows "is_license r \<longleftrightarrow>
           (\<exists>s. tipo_item r = Str s \<and> search_ignorecase (lit ''licenca'') s)"
proof -
  from load_inventory_member[OF assms] obtain x p where "r = set_prioridade (flag_row x) p"
    by blast
  then show ?thesis
    by (auto simp: sel_set_prioridade flag_row_def Let_def str_contains_def split: cell.splits)
qed

text \<open>The witness for C8 as amended: the item type \<open>Licenca Adobe\<close> is flagged.\<close>

theorem is_license_licenca_witness:
  "load_inventory [mac_licenca] = Inr [mac_licenca_row] \<and> mac_licenca_row \<in> set [mac_licenca_row] \<and>
   tipo_item mac_licenca_row = Str (lit ''Licenca Adobe'') \<and>
   search_ignorecase (lit ''licenca'') (lit ''Licenca Adobe'') \<and> is_license mac_licenca_row"
  using is_license_licenca [of "[mac_licenca]" "[mac_licenca_row]" mac_licenca_row] load_mac_licenca
  by (simp add: mac_licenca_row_def macbook_row_def notebook_row_def)

text \<open>
  Claim C9 says that the unit value, the unit depreciation and the reference depreciation of
  every record that \<open>load_inventory\<close> produces are at least 0. The code copies the two
  numbers of the spreadsheet without a check: a negative unit value stays negative.
\<close>

theorem valor_unitario_negative_counterexample:
  "col_valor_unitario negative_value = Fin (- 5) \<and>
   load_inventory [negative_value] = Inr [negative_value_row] \<and>
   valor_unitario negative_value_row = Fin (- 5) \<and>
   \<not> float_le (Fin 0) (valor_unitario negative_value_row)"
  by (simp add: eval_defs)

text \<open>
  Claim C9 as amended: a record made from a row whose unit value and unit depreciation are
  numbers that are at least 0 has a unit value, a unit depreciation and a reference
  depreciation that are at least 0.
\<close>

theorem numeric_fields_nonnegative:
  assumes "load_inventory sheet = Inr df" and "i < length sheet"
    and "float_le (Fin 0) (col_valor_unitario (sheet ! i))"
    and "float_le (Fin 0) (col_depreciacao_unitaria (sheet ! i))"
  shows "float_le (Fin 0) (valor_unitario (df ! i)) \<and>
         float_le (Fin 0) (depreciacao_unitaria (df ! i)) \<and>
         float_le (Fin 0) (dep_referencia (df ! i))"
proof -
  from load_inventory_nth[OF assms(1,2)] obtain p
    where r: "df ! i = set_prioridade (flag_row (sheet ! i)) p" by blast
  from assms(3,4) show ?thesis unfolding r
    by (simp add: sel_set_prioridade flag_row_def Let_def MAC_REFERENCE_DEPRECIATION_def
        LICENSE_REFERENCE_DEPRECIATION_def)
qed

text \<open>The witness for C9 as amended: the notebook.\<close>

theorem numeric_fields_nonnegative_witness:
  "load_inventory [notebook] = Inr [notebook_row] \<and> (0::nat) < length [notebook] \<and>
   float_le (Fin 0) (col_valor_unitario ([notebook] ! 0)) \<and>
   float_le (Fin 0) (col_depreciacao_unitaria ([notebook] ! 0)) \<and>
   float_le (Fin 0) (valor_unitario ([notebook_row] ! 0)) \<and>
   float_le (Fin 0) (depreciacao_unitaria ([notebook_row] ! 0)) \<and>
   float_le (Fin 0) (dep_referencia ([notebook_row] ! 0))"
  using numeric_fields_nonnegative [of "[notebook]" "[notebook_row]" 0] load_notebook
  by (simp add: notebook_def)

text \<open>
  Claim C10: \<open>normalize_column\<close> is idempotent: applied to a label that it returned, it
  returns that label.
\<close>

theorem normalize_column_idempotent:
  "normalize_column d (normalize_column d s) = normalize_column d s"
proof -
  obtain ws where "normalize_column d s = join [95] ws" "label_words ws"
    using label_words_split_re_sub by (auto simp: normalize_column_def Let_def)
  then show ?thesis by (simp add: normalize_column_fixed)
qed

text \<open>
  The witness for C10: the label of the unit depreciation in the spreadsheet becomes the
  key \<open>depreciacao_anual_unitaria_r\<close> of the rename map, and stays that.
\<close>

theorem normalize_column_idempotent_witness:
  "normalize_column sample_decomposition label_depreciacao_unitaria =
     lit ''depreciacao_anual_unitaria_r'' \<and>
   normalize_column sample_decomposition (lit ''depreciacao_anual_unitaria_r'') =
     lit ''depreciacao_anual_unitaria_r''"
proof -
  have "normalize_column sample_decomposition label_depreciacao_unitaria =
          lit ''depreciacao_anual_unitaria_r''"
    by (simp add: normalize_column_def nfkd_ascii_def sample_decomposition_def
        label_depreciacao_unitaria_def lit_def replace_def strip_def isspace_def lower_def
        lower_cp_def in_class_def)
  with normalize_column_idempotent [of sample_decomposition label_depreciacao_unitaria]
  show ?thesis by simp
qed

end
